theory Spec2Isabelle
  imports Complex_Main "HOL-Library.Sublist" "HOL-Library.List_Lexorder" "HOL-Library.Char_ord"
begin

section \<open>Dashboard LAMDEC: the React front end and the query core it talks to\<close>

text \<open>
  The repository's source holds the front end (one React module with the components
  \<open>Resumos\<close> and \<open>BuscaCDA\<close>), the Vite proxy configuration and the README. The
  FastAPI back end (the query and aggregation core of the specification) is not part of
  the source; where a property is about it, the definition is written from the
  specification and says so.

  Conventions of the embedding:
  \<^item> a JavaScript number is a \<open>real\<close> (exact arithmetic; the counts and codes of the
    data are integers and are \<open>int\<close> where the code only compares them);
  \<^item> where the code treats \<open>undefined\<close> and \<open>null\<close> alike (the operator \<open>??\<close>), a
    property that may be either is an \<open>option\<close>, \<open>None\<close> standing for both; where it
    does not (a division), the property is a \<open>jsnum\<close>, which keeps them apart;
  \<^item> in a computed number \<open>None\<close> stands for \<open>NaN\<close>;
  \<^item> a string is the list of the bytes of its UTF-8 encoding; the code modelled here
    only compares strings and tests them for emptiness, which the encoding preserves;
  \<^item> React state is a record, an event handler is a function from state to state.
\<close>

subsection \<open>Labels\<close>

text \<open>
  The label of situacao code 0 as the specification writes it: "Em cobranca" with a
  c-cedilla (U+00E7, the bytes C3 A7) as its tenth character.
\<close>

definition Em_cobranca :: string where
  "Em_cobranca = ''Em cobran'' @ [CHR 0xC3, CHR 0xA7] @ ''a''"

text \<open>
  The string literal of the React module, in the list \<open>situacoes\<close> and in the cell of
  the result table: between "Em cobran" and "a" it holds the two characters U+221A
  (square root sign) and U+00DF (sharp s), the bytes E2 88 9A C3 9F.
\<close>

definition Em_cobranca_src :: string where
  "Em_cobranca_src = ''Em cobran'' @ [CHR 0xE2, CHR 0x88, CHR 0x9A, CHR 0xC3, CHR 0x9F] @ ''a''"

subsection \<open>Rows of the summary tables\<close>

text \<open>
  A row of a year series is an object with numeric properties only (\<open>ano\<close>,
  \<open>Quantidade\<close>), read by a key given as a string: a map from property names to numbers.
\<close>

type_synonym num_row = "string \<Rightarrow> real option"

text \<open>
  The numeric property of a category slice row as the JSON body delivers it: absent
  (\<open>undefined\<close> when read), \<open>null\<close>, or a number.
\<close>

datatype jsnum = JUndefined | JNull | JNum real

text \<open>A category slice row: \<open>{name, Quantidade}\<close> and \<open>{name, Saldo}\<close>.\<close>

record qtd_row =
  name :: string
  Quantidade :: jsnum

record saldo_row =
  name :: string
  Saldo :: jsnum

text \<open>The rows of the two pie charts in percentage mode: \<open>{...x, pct: ...}\<close>.\<close>

record qtd_pct_row = qtd_row +
  pct :: "real option"

record saldo_pct_row = saldo_row +
  pct :: "real option"

subsection \<open>trimLeadingZerosByKey\<close>

text \<open>\<open>Array.prototype.findIndex\<close>: the index of the first element that satisfies the
  predicate, and -1 when there is none.\<close>

fun findIndex :: "('a \<Rightarrow> bool) \<Rightarrow> 'a list \<Rightarrow> int" where
  "findIndex p [] = - 1"
| "findIndex p (x # xs) =
     (if p x then 0
      else (let i = findIndex p xs in if i < 0 then - 1 else i + 1))"

text \<open>\<open>arr.slice(start)\<close>: a negative start counts from the end, both clipped to the
  array.\<close>

definition slice_from :: "int \<Rightarrow> 'a list \<Rightarrow> 'a list" where
  "slice_from start arr =
     (if start < 0 then drop (nat (max 0 (int (length arr) + start))) arr
      else drop (nat start) arr)"

text \<open>\<open>Number(item?.[numericKey] ?? 0)\<close> on a row with numeric properties.\<close>

definition num_at :: "num_row \<Rightarrow> string \<Rightarrow> real" where
  "num_at item numericKey = (case item numericKey of None \<Rightarrow> 0 | Some v \<Rightarrow> v)"

definition trimLeadingZerosByKey :: "num_row list \<Rightarrow> string \<Rightarrow> num_row list" where
  "trimLeadingZerosByKey arr numericKey =
     (let idx = findIndex (\<lambda>item. num_at item numericKey > 0) arr
      in if idx > 0 then slice_from idx arr else arr)"

text \<open>The row \<open>{ano: a, Quantidade: n}\<close> of a year series.\<close>

definition serie_row :: "real \<Rightarrow> real \<Rightarrow> num_row" where
  "serie_row a n =
     (\<lambda>k. if k = ''ano'' then Some a else if k = ''Quantidade'' then Some n else None)"

subsection \<open>The component Resumos\<close>

text \<open>
  The state of \<open>Resumos\<close> that the data flow uses: the seven summary tables and the KPI
  total. The rows of the Pareto table and of the distribution table are only handed to
  the charts, so their types are parameters. The display toggles and the modal state do
  not take part in any computation below and are left out.
\<close>

record ('m, 'd) resumos_state =
  inscricoes :: "num_row list"
  inscricoesCanceladas :: "num_row list"
  inscricoesQuitadas :: "num_row list"
  montanteAcumulado :: "'m list"
  quantidadeCdas :: "qtd_row list"
  saldoCdas :: "saldo_row list"
  distribuicaoCdas :: "'d list"
  qtdEmCobrancaTotal :: "real option"

definition Resumos_init :: "('m, 'd) resumos_state" where
  "Resumos_init =
     \<lparr> inscricoes = [], inscricoesCanceladas = [], inscricoesQuitadas = [],
       montanteAcumulado = [], quantidadeCdas = [], saldoCdas = [],
       distribuicaoCdas = [], qtdEmCobrancaTotal = None \<rparr>"

text \<open>An axios request either rejects or resolves with the body of the response.\<close>

datatype 'a response = Rejected | Resolved 'a

text \<open>The bodies of the seven \<open>/resumo\<close> requests, in the order of \<open>Promise.all\<close>.\<close>

record ('m, 'd) resumo_data =
  d_i :: "num_row list"
  d_ic :: "num_row list"
  d_iq :: "num_row list"
  d_ma :: "'m list"
  d_qc :: "qtd_row list"
  d_sc :: "saldo_row list"
  d_dc :: "'d list"

text \<open>
  \<open>fetchAll\<close>. \<open>Promise.all\<close> resolves with the seven bodies or rejects when one of the
  requests rejects; a rejection leaves \<open>fetchAll\<close> before any setter runs. The KPI request
  follows inside \<open>try\<close>/\<open>catch\<close>: its body's \<open>total\<close> (an \<open>option\<close>, \<open>None\<close> when the body
  has no such number) is stored, and a rejection is ignored.
\<close>

definition fetchAll ::
  "('m, 'd) resumo_data response \<Rightarrow> real option response \<Rightarrow>
   ('m, 'd) resumos_state \<Rightarrow> ('m, 'd) resumos_state" where
  "fetchAll resumos totalRes s =
     (case resumos of
        Rejected \<Rightarrow> s
      | Resolved d \<Rightarrow>
          (let s1 = s\<lparr> inscricoes := d_i d, inscricoesCanceladas := d_ic d,
                       inscricoesQuitadas := d_iq d, montanteAcumulado := d_ma d,
                       quantidadeCdas := d_qc d, saldoCdas := d_sc d,
                       distribuicaoCdas := d_dc d \<rparr>
           in case totalRes of
                Rejected \<Rightarrow> s1
              | Resolved t \<Rightarrow> s1\<lparr> qtdEmCobrancaTotal := t \<rparr>))"

definition inscricoesTrim :: "('m, 'd) resumos_state \<Rightarrow> num_row list" where
  "inscricoesTrim s = trimLeadingZerosByKey (inscricoes s) ''Quantidade''"

definition canceladasTrim :: "('m, 'd) resumos_state \<Rightarrow> num_row list" where
  "canceladasTrim s = trimLeadingZerosByKey (inscricoesCanceladas s) ''Quantidade''"

definition quitadasTrim :: "('m, 'd) resumos_state \<Rightarrow> num_row list" where
  "quitadasTrim s = trimLeadingZerosByKey (inscricoesQuitadas s) ''Quantidade''"

text \<open>\<open>Number(v || 0)\<close> on a numeric property: \<open>undefined\<close>, \<open>null\<close> and 0 are
  falsy.\<close>

definition or_zero :: "jsnum \<Rightarrow> real" where
  "or_zero v =
     (case v of JUndefined \<Rightarrow> 0 | JNull \<Rightarrow> 0 | JNum n \<Rightarrow> (if n = 0 then 0 else n))"

text \<open>
  \<open>(v / total) * 100\<close>, with \<open>tot\<close> for the local \<open>total\<close>. The division turns its
  left operand into a number: \<open>undefined\<close> becomes \<open>NaN\<close>, \<open>null\<close> becomes 0. Used for
  a non-zero total only.
\<close>

definition pct_of :: "jsnum \<Rightarrow> real \<Rightarrow> real option" where
  "pct_of v tot =
     (case v of JUndefined \<Rightarrow> None
      | JNull \<Rightarrow> Some ((0 / tot) * 100)
      | JNum n \<Rightarrow> Some ((n / tot) * 100))"

definition pieQuantidadePercent :: "qtd_row list \<Rightarrow> qtd_pct_row list" where
  "pieQuantidadePercent arr =
     (let tot = foldl (\<lambda>s x. s + or_zero (Quantidade x)) 0 arr
      in map (\<lambda>x. \<lparr> qtd_row.name = qtd_row.name x, Quantidade = Quantidade x,
                     qtd_pct_row.pct = (if tot \<noteq> 0 then pct_of (Quantidade x) tot else Some 0) \<rparr>)
           arr)"

definition pieSaldoPercent :: "saldo_row list \<Rightarrow> saldo_pct_row list" where
  "pieSaldoPercent arr =
     (let tot = foldl (\<lambda>s x. s + or_zero (Saldo x)) 0 arr
      in map (\<lambda>x. \<lparr> saldo_row.name = saldo_row.name x, Saldo = Saldo x,
                     saldo_pct_row.pct = (if tot \<noteq> 0 then pct_of (Saldo x) tot else Some 0) \<rparr>)
           arr)"

definition saldoTotal :: "saldo_row list \<Rightarrow> real" where
  "saldoTotal arr = foldl (\<lambda>s x. s + or_zero (Saldo x)) 0 arr"

definition qtdTotal :: "qtd_row list \<Rightarrow> real" where
  "qtdTotal arr = foldl (\<lambda>s x. s + or_zero (Quantidade x)) 0 arr"

text \<open>The number handed to the formatter of the card "Volume de CDAs em cobranca":
  \<open>qtdEmCobrancaTotal ?? qtdTotal\<close>.\<close>

definition kpi_volume :: "('m, 'd) resumos_state \<Rightarrow> real" where
  "kpi_volume s =
     (case qtdEmCobrancaTotal s of None \<Rightarrow> qtdTotal (quantidadeCdas s) | Some t \<Rightarrow> t)"

text \<open>The exact sum of the percentages of a pie, \<open>None\<close> as soon as one of them is
  \<open>NaN\<close>.\<close>

fun sum_pct :: "real option list \<Rightarrow> real option" where
  "sum_pct [] = Some 0"
| "sum_pct (p # ps) =
     (case p of None \<Rightarrow> None
      | Some v \<Rightarrow> (case sum_pct ps of None \<Rightarrow> None | Some w \<Rightarrow> Some (v + w)))"

subsection \<open>Records of the data set\<close>

text \<open>
  A CDA record, with the fields of the specification's data model; the search table
  reads \<open>agrupamento_situacao\<close> (and prints the other five columns).
\<close>

record cda_record =
  num_cda :: string
  natureza :: string
  agrupamento_situacao :: int
  ano :: int
  qtde_anos_idade_cda :: int
  valor_saldo_atualizado :: real
  score :: real

subsection \<open>The component BuscaCDA\<close>

text \<open>The type \<open>SortField\<close> with its values \<open>'saldo'\<close>, \<open>'ano'\<close>, \<open>'score'\<close>, and \<open>Direction\<close>.\<close>

datatype SortField = Sort_saldo | Sort_ano | Sort_score

datatype Direction = Asc | Desc

text \<open>The value of a numeric filter input, of type \<open>number | ''\<close>.\<close>

datatype num_input = Blank | Number real

text \<open>
  The state of \<open>BuscaCDA\<close> that the request and the pagination read. (\<open>items\<close> and
  \<open>loading\<close> only feed the table body.)
\<close>

record busca_state =
  q :: string
  natureza :: "string list"
  situacao :: "string list"
  minAno :: num_input
  maxAno :: num_input
  minSaldo :: num_input
  maxSaldo :: num_input
  minScore :: num_input
  maxScore :: num_input
  sortBy :: SortField
  sortDir :: Direction
  page :: int
  pageSize :: int
  total :: int

text \<open>The arguments of the \<open>useState\<close> calls.\<close>

definition BuscaCDA_init :: busca_state where
  "BuscaCDA_init =
     \<lparr> q = [], natureza = [], situacao = [],
       minAno = Blank, maxAno = Blank, minSaldo = Blank, maxSaldo = Blank,
       minScore = Blank, maxScore = Blank,
       sortBy = Sort_saldo, sortDir = Desc, page = 1, pageSize = 20, total = 0 \<rparr>"

definition situacoes :: "string list" where
  "situacoes = [''Cancelada'', Em_cobranca_src, ''Quitada'']"

text \<open>The \<open>params\<close> object of \<open>buscar\<close>; a property that is \<open>undefined\<close> is \<open>None\<close>.\<close>

record search_params =
  p_q :: "string option"
  p_natureza :: "string list option"
  p_situacao :: "string list option"
  p_min_ano :: "real option"
  p_max_ano :: "real option"
  p_min_saldo :: "real option"
  p_max_saldo :: "real option"
  p_min_score :: "real option"
  p_max_score :: "real option"
  p_sort_by :: SortField
  p_sort_dir :: Direction
  p_page :: int
  p_page_size :: int

text \<open>\<open>x === '' ? undefined : x\<close>.\<close>

definition blank_undefined :: "num_input \<Rightarrow> real option" where
  "blank_undefined x = (case x of Blank \<Rightarrow> None | Number v \<Rightarrow> Some v)"

text \<open>\<open>arr.length ? arr : undefined\<close>.\<close>

definition empty_undefined :: "'a list \<Rightarrow> 'a list option" where
  "empty_undefined arr = (if length arr \<noteq> 0 then Some arr else None)"

text \<open>The object \<open>params\<close> that \<open>buscar\<close> builds from the state (\<open>q || undefined\<close>: the
  empty string is the only falsy string).\<close>

definition buscar_params :: "busca_state \<Rightarrow> search_params" where
  "buscar_params s =
     \<lparr> p_q = (if q s = [] then None else Some (q s)),
       p_natureza = empty_undefined (natureza s),
       p_situacao = empty_undefined (situacao s),
       p_min_ano = blank_undefined (minAno s),
       p_max_ano = blank_undefined (maxAno s),
       p_min_saldo = blank_undefined (minSaldo s),
       p_max_saldo = blank_undefined (maxSaldo s),
       p_min_score = blank_undefined (minScore s),
       p_max_score = blank_undefined (maxScore s),
       p_sort_by = sortBy s,
       p_sort_dir = sortDir s,
       p_page = page s,
       p_page_size = pageSize s \<rparr>"

text \<open>When the response of \<open>/cda/search\<close> arrives, \<open>buscar\<close> stores its \<open>total\<close>.\<close>

definition buscar_response :: "int \<Rightarrow> busca_state \<Rightarrow> busca_state" where
  "buscar_response t s = s\<lparr> total := t \<rparr>"

text \<open>The cell of the column "Situacao" for a row of the result table.\<close>

definition situacao_cell :: "cda_record \<Rightarrow> string" where
  "situacao_cell row =
     (if agrupamento_situacao row = - 1 then ''Cancelada''
      else if agrupamento_situacao row = 0 then Em_cobranca_src
      else ''Quitada'')"

text \<open>
  \<open>Math.max(1, Math.ceil(total / pageSize))\<close>, for a page size above zero (the only
  values the state takes are 20 and the options of the select box; a division by zero
  would give \<open>Infinity\<close> or \<open>NaN\<close> in JavaScript).
\<close>

definition totalPages :: "busca_state \<Rightarrow> int" where
  "totalPages s = max 1 \<lceil>real_of_int (total s) / real_of_int (pageSize s)\<rceil>"

text \<open>The pagination controls: the two buttons with their \<open>disabled\<close> attributes, the
  select box of the page size with its options, and the button "Buscar".\<close>

definition anterior_disabled :: "busca_state \<Rightarrow> bool" where
  "anterior_disabled s = (page s \<le> 1)"

definition anterior_click :: "busca_state \<Rightarrow> busca_state" where
  "anterior_click s = s\<lparr> page := max 1 (page s - 1) \<rparr>"

definition proxima_disabled :: "busca_state \<Rightarrow> bool" where
  "proxima_disabled s = (page s \<ge> totalPages s)"

definition proxima_click :: "busca_state \<Rightarrow> busca_state" where
  "proxima_click s = s\<lparr> page := min (totalPages s) (page s + 1) \<rparr>"

definition pageSize_options :: "int list" where
  "pageSize_options = [10, 20, 50, 100, 200]"

definition pageSize_change :: "int \<Rightarrow> busca_state \<Rightarrow> busca_state" where
  "pageSize_change v s = s\<lparr> pageSize := v, page := 1 \<rparr>"

definition buscar_click :: "busca_state \<Rightarrow> busca_state" where
  "buscar_click s = s\<lparr> page := 1 \<rparr>"

datatype control = Anterior | Proxima | PageSize int | Buscar

text \<open>What a use of a control does to the state; \<open>None\<close> when the browser does not
  deliver it (a disabled button, a value that is not an option of the select box).\<close>

fun control_step :: "control \<Rightarrow> busca_state \<Rightarrow> busca_state option" where
  "control_step Anterior s = (if anterior_disabled s then None else Some (anterior_click s))"
| "control_step Proxima s = (if proxima_disabled s then None else Some (proxima_click s))"
| "control_step (PageSize v) s =
     (if v \<in> set pageSize_options then Some (pageSize_change v s) else None)"
| "control_step Buscar s = Some (buscar_click s)"

text \<open>The invariant of the pagination.\<close>

definition page_inv :: "busca_state \<Rightarrow> bool" where
  "page_inv s =
     (1 \<le> page s \<and> page s \<le> totalPages s \<and> pageSize s \<in> set pageSize_options)"

subsection \<open>The query core, as the specification describes it\<close>

text \<open>
  Modelled from the spec: the two external encodings of a \<open>situacao\<close> value (section
  4.2), a numeric code or a human label. The back end that parses them is not in the
  source.
\<close>

datatype sit_token = Code int | Label string

text \<open>
  Modelled from the spec: the mapping from labels to codes of section 4.2 ("Cancelada"
  to -1, "Em cobranca" to 0, "Quitada" to 1); any other label has no code.
\<close>

definition label_code :: "string \<Rightarrow> int option" where
  "label_code l =
     (if l = ''Cancelada'' then Some (- 1)
      else if l = Em_cobranca then Some 0
      else if l = ''Quitada'' then Some 1
      else None)"

text \<open>
  Modelled from the spec: the normalisation of one token to the internal code (section
  4.2 and the first design note of section 9); a token that is neither a valid code
  nor a valid label is ignored.
\<close>

fun normalize_situacao :: "sit_token \<Rightarrow> int option" where
  "normalize_situacao (Code c) = (if c = - 1 \<or> c = 0 \<or> c = 1 then Some c else None)"
| "normalize_situacao (Label l) = label_code l"

text \<open>
  Modelled from the spec: the internal code set of a request's \<open>situacao\<close> values, both
  encodings merged into one set (section 4.2).
\<close>

definition situacao_codes :: "sit_token list \<Rightarrow> int set" where
  "situacao_codes ts = set (List.map_filter normalize_situacao ts)"

text \<open>
  Modelled from the spec: the normalised filter request of sections 4.2 and 6; an absent
  field is \<open>None\<close>.
\<close>

record filter_request =
  f_q :: "string option"
  f_natureza :: "string list option"
  f_situacao :: "sit_token list option"
  f_min_ano :: "int option"
  f_max_ano :: "int option"
  f_min_saldo :: "real option"
  f_max_saldo :: "real option"
  f_min_score :: "real option"
  f_max_score :: "real option"
  f_sort_by :: SortField
  f_sort_dir :: Direction
  f_page :: int
  f_page_size :: int

text \<open>
  Modelled from the spec: the defaults of the table in section 6 (\<open>sort_by\<close> saldo,
  \<open>sort_dir\<close> desc, \<open>page\<close> 1, \<open>page_size\<close> 20), no filter present.
\<close>

definition default_request :: filter_request where
  "default_request =
     \<lparr> f_q = None, f_natureza = None, f_situacao = None,
       f_min_ano = None, f_max_ano = None, f_min_saldo = None, f_max_saldo = None,
       f_min_score = None, f_max_score = None,
       f_sort_by = Sort_saldo, f_sort_dir = Desc, f_page = 1, f_page_size = 20 \<rparr>"

text \<open>
  Modelled from the spec: the case-insensitive substring match of \<open>q\<close> against
  \<open>num_cda\<close> (section 4.2), letters compared in lower case.
\<close>

definition to_lower :: "char \<Rightarrow> char" where
  "to_lower c =
     (if 65 \<le> (of_char c :: nat) \<and> (of_char c :: nat) \<le> 90
      then char_of ((of_char c :: nat) + 32) else c)"

fun contains :: "string \<Rightarrow> string \<Rightarrow> bool" where
  "contains fragment [] = (fragment = [])"
| "contains fragment (c # cs) = (prefix fragment (c # cs) \<or> contains fragment cs)"

text \<open>
  Modelled from the spec: an inclusive range with either bound possibly absent (section
  4.2).
\<close>

definition in_range :: "'a::linorder option \<Rightarrow> 'a option \<Rightarrow> 'a \<Rightarrow> bool" where
  "in_range lo hi v =
     ((case lo of None \<Rightarrow> True | Some l \<Rightarrow> l \<le> v) \<and>
      (case hi of None \<Rightarrow> True | Some h \<Rightarrow> v \<le> h))"

text \<open>
  Modelled from the spec: the predicate of the PredicateBuilder (section 4.2), the
  conjunction of the dimensions that are present. An absent or empty set is no
  constraint.
\<close>

definition matches :: "filter_request \<Rightarrow> cda_record \<Rightarrow> bool" where
  "matches req r =
     ((case f_q req of None \<Rightarrow> True
       | Some fragment \<Rightarrow> contains (map to_lower fragment) (map to_lower (num_cda r))) \<and>
      (case f_natureza req of None \<Rightarrow> True
       | Some ns \<Rightarrow> ns = [] \<or> cda_record.natureza r \<in> set ns) \<and>
      (case f_situacao req of None \<Rightarrow> True
       | Some ts \<Rightarrow> ts = [] \<or> agrupamento_situacao r \<in> situacao_codes ts) \<and>
      in_range (f_min_ano req) (f_max_ano req) (ano r) \<and>
      in_range (f_min_saldo req) (f_max_saldo req) (valor_saldo_atualizado r) \<and>
      in_range (f_min_score req) (f_max_score req) (score r))"

text \<open>
  Modelled from the spec: the Sorter (section 4.3): the order by the chosen field in the
  chosen direction, ties broken by \<open>num_cda\<close> ascending.
\<close>

definition sort_value :: "SortField \<Rightarrow> cda_record \<Rightarrow> real" where
  "sort_value f r =
     (case f of Sort_saldo \<Rightarrow> valor_saldo_atualizado r
      | Sort_ano \<Rightarrow> real_of_int (ano r)
      | Sort_score \<Rightarrow> score r)"

definition precedes :: "SortField \<Rightarrow> Direction \<Rightarrow> cda_record \<Rightarrow> cda_record \<Rightarrow> bool" where
  "precedes f d a b =
     (if sort_value f a = sort_value f b then num_cda a \<le> num_cda b
      else (case d of Asc \<Rightarrow> sort_value f a < sort_value f b
            | Desc \<Rightarrow> sort_value f b < sort_value f a))"

fun insert_sorted ::
  "SortField \<Rightarrow> Direction \<Rightarrow> cda_record \<Rightarrow> cda_record list \<Rightarrow> cda_record list" where
  "insert_sorted f d x [] = [x]"
| "insert_sorted f d x (y # ys) =
     (if precedes f d x y then x # y # ys else y # insert_sorted f d x ys)"

definition sorter :: "SortField \<Rightarrow> Direction \<Rightarrow> cda_record list \<Rightarrow> cda_record list" where
  "sorter f d rs = foldr (insert_sorted f d) rs []"

text \<open>
  Modelled from the spec: the Paginator (section 4.4). \<open>page < 1\<close> is treated as 1,
  \<open>page_size < 1\<close> as 1; \<open>items\<close> is the slice from \<open>(page - 1) * page_size\<close> up to
  \<open>page * page_size\<close>, clipped to the sequence; \<open>total\<close> is the length of the whole
  sequence.
\<close>

definition paginate :: "'a list \<Rightarrow> int \<Rightarrow> int \<Rightarrow> 'a list \<times> nat" where
  "paginate xs pg pg_size =
     (let p = max 1 pg; ps = max 1 pg_size;
          start = nat ((p - 1) * ps); stop = nat (p * ps)
      in (take (stop - start) (drop start xs), length xs))"

text \<open>
  Modelled from the spec: the SearchEngine (section 4.5): filter, then sort, then
  paginate.
\<close>

definition search :: "filter_request \<Rightarrow> cda_record list \<Rightarrow> cda_record list \<times> nat" where
  "search req rs =
     paginate (sorter (f_sort_by req) (f_sort_dir req) (filter (matches req) rs))
       (f_page req) (f_page_size req)"

text \<open>
  Modelled from the spec: the KpiCalculator (section 4.7; the README says the same of
  the endpoint): one pass over the records that counts those in collection.
\<close>

fun volume_em_cobranca :: "cda_record list \<Rightarrow> nat" where
  "volume_em_cobranca [] = 0"
| "volume_em_cobranca (r # rs) =
     (if agrupamento_situacao r = 0 then 1 else 0) + volume_em_cobranca rs"

text \<open>
  Modelled from the spec: the summary table \<open>quantidade_cdas\<close> of the Aggregator
  (section 4.6): one row per distinct \<open>natureza\<close> of the data, with the count of its
  records over the full collection.
\<close>

definition quantidade_cdas :: "cda_record list \<Rightarrow> qtd_row list" where
  "quantidade_cdas rs =
     map (\<lambda>n. \<lparr> qtd_row.name = n,
                 Quantidade = JNum (real (length (filter (\<lambda>r. cda_record.natureza r = n) rs))) \<rparr>)
       (remdups (map cda_record.natureza rs))"

subsection \<open>Example data\<close>

text \<open>
  The data set of the scenario of section 8 of the specification: three records with the
  balances 100, 50, 10 and the codes -1, 0, 1 (the other fields are chosen freely), and a
  second record in collection.
\<close>

definition rec_cancelada :: cda_record where
  "rec_cancelada =
     \<lparr> num_cda = ''A1'', cda_record.natureza = ''IPTU'', agrupamento_situacao = - 1, ano = 2012,
       qtde_anos_idade_cda = 12, valor_saldo_atualizado = 100, score = 1 / 2 \<rparr>"

definition rec_em_cobranca :: cda_record where
  "rec_em_cobranca =
     \<lparr> num_cda = ''A2'', cda_record.natureza = ''ISS'', agrupamento_situacao = 0, ano = 2015,
       qtde_anos_idade_cda = 9, valor_saldo_atualizado = 50, score = 1 / 4 \<rparr>"

definition rec_quitada :: cda_record where
  "rec_quitada =
     \<lparr> num_cda = ''A3'', cda_record.natureza = ''IPTU'', agrupamento_situacao = 1, ano = 2018,
       qtde_anos_idade_cda = 6, valor_saldo_atualizado = 10, score = 3 / 4 \<rparr>"

definition rec_em_cobranca2 :: cda_record where
  "rec_em_cobranca2 =
     \<lparr> num_cda = ''B7'', cda_record.natureza = ''IPTU'', agrupamento_situacao = 0, ano = 2018,
       qtde_anos_idade_cda = 6, valor_saldo_atualizado = 75, score = 3 / 4 \<rparr>"

section \<open>Properties\<close>

subsection \<open>Trimming of the year series\<close>

lemma findIndex_ge: "- 1 \<le> findIndex p xs"
  by (induction xs) (auto simp: Let_def)

lemma findIndex_none: "(findIndex p xs < 0) = (\<forall>x\<in>set xs. \<not> p x)"
  using findIndex_ge [of p] by (induction xs) (auto simp: Let_def)

lemma findIndex_takeWhile:
  "\<exists>x\<in>set xs. p x \<Longrightarrow> findIndex p xs = int (length (takeWhile (\<lambda>x. \<not> p x) xs))"
proof (induction xs)
  case Nil
  then show ?case by simp
next
  case (Cons a xs)
  show ?case
  proof (cases "p a")
    case True
    then show ?thesis by simp
  next
    case False
    with Cons.prems have ex: "\<exists>x\<in>set xs. p x" by simp
    then have "\<not> findIndex p xs < 0" by (simp add: findIndex_none)
    with False Cons.IH [OF ex] show ?thesis by (simp add: Let_def)
  qed
qed

lemma slice_from_nonneg: "0 \<le> i \<Longrightarrow> slice_from i xs = drop (nat i) xs"
  by (simp add: slice_from_def)

lemma trim_general:
  "trimLeadingZerosByKey arr k =
     (if \<exists>r\<in>set arr. 0 < num_at r k then dropWhile (\<lambda>r. \<not> 0 < num_at r k) arr else arr)"
proof (cases "\<exists>r\<in>set arr. 0 < num_at r k")
  case True
  let ?p = "\<lambda>item. 0 < num_at item k"
  have idx: "findIndex ?p arr = int (length (takeWhile (\<lambda>x. \<not> ?p x) arr))"
    using True by (rule findIndex_takeWhile)
  have dw: "drop (length (takeWhile (\<lambda>x. \<not> ?p x) arr)) arr = dropWhile (\<lambda>x. \<not> ?p x) arr"
    by (simp add: dropWhile_eq_drop)
  show ?thesis
  proof (cases "takeWhile (\<lambda>x. \<not> ?p x) arr = []")
    case True
    then have "dropWhile (\<lambda>x. \<not> ?p x) arr = arr"
      by (metis append_Nil takeWhile_dropWhile_id)
    with True idx \<open>\<exists>r\<in>set arr. 0 < num_at r k\<close> show ?thesis
      by (simp add: trimLeadingZerosByKey_def)
  next
    case False
    then have "0 < findIndex ?p arr" using idx by simp
    with idx dw \<open>\<exists>r\<in>set arr. 0 < num_at r k\<close> show ?thesis
      by (simp add: trimLeadingZerosByKey_def slice_from_nonneg)
  qed
next
  case False
  then have "findIndex (\<lambda>item. 0 < num_at item k) arr < 0"
    by (simp add: findIndex_none)
  with False show ?thesis by (simp add: trimLeadingZerosByKey_def)
qed

text \<open>
  Claim C1. For a year series returned by a \<open>/resumo\<close> endpoint (rows whose \<open>Quantidade\<close>
  is a count, so never negative), \<open>trimLeadingZerosByKey\<close> with the key \<open>'Quantidade'\<close>
  removes exactly the leading rows whose \<open>Quantidade\<close> is zero when some row has a
  positive \<open>Quantidade\<close>: the result is the suffix that starts at the first such row. An
  array whose first row is already positive is returned unchanged. When every row has
  \<open>Quantidade\<close> zero the code keeps all rows: \<open>findIndex\<close> gives -1 and the array is
  returned as it is.
\<close>

theorem trimLeadingZerosByKey_Quantidade:
  assumes counts: "\<forall>r\<in>set arr. 0 \<le> num_at r ''Quantidade''"
  shows "((\<exists>r\<in>set arr. 0 < num_at r ''Quantidade'') \<longrightarrow>
            trimLeadingZerosByKey arr ''Quantidade'' =
              dropWhile (\<lambda>r. num_at r ''Quantidade'' = 0) arr \<and>
            trimLeadingZerosByKey arr ''Quantidade'' \<noteq> [] \<and>
            0 < num_at (hd (trimLeadingZerosByKey arr ''Quantidade'')) ''Quantidade'') \<and>
         (arr \<noteq> [] \<and> 0 < num_at (hd arr) ''Quantidade'' \<longrightarrow>
            trimLeadingZerosByKey arr ''Quantidade'' = arr) \<and>
         ((\<forall>r\<in>set arr. num_at r ''Quantidade'' = 0) \<longrightarrow>
            trimLeadingZerosByKey arr ''Quantidade'' = arr)"
proof -
  let ?Q = "\<lambda>r. num_at r ''Quantidade''"
  have same: "dropWhile (\<lambda>r. \<not> 0 < ?Q r) arr = dropWhile (\<lambda>r. ?Q r = 0) arr"
    using counts by (intro dropWhile_cong) auto
  have first: "trimLeadingZerosByKey arr ''Quantidade'' = dropWhile (\<lambda>r. ?Q r = 0) arr \<and>
      trimLeadingZerosByKey arr ''Quantidade'' \<noteq> [] \<and>
      0 < ?Q (hd (trimLeadingZerosByKey arr ''Quantidade''))"
    if ex: "\<exists>r\<in>set arr. 0 < ?Q r"
  proof -
    have t: "trimLeadingZerosByKey arr ''Quantidade'' = dropWhile (\<lambda>r. \<not> 0 < ?Q r) arr"
      using ex by (simp add: trim_general)
    have ne: "dropWhile (\<lambda>r. \<not> 0 < ?Q r) arr \<noteq> []"
      using ex by (simp add: dropWhile_eq_Nil_conv)
    then have "0 < ?Q (hd (dropWhile (\<lambda>r. \<not> 0 < ?Q r) arr))"
      using hd_dropWhile [of "\<lambda>r. \<not> 0 < ?Q r" arr] by simp
    with t ne same show ?thesis by simp
  qed
  have second: "trimLeadingZerosByKey arr ''Quantidade'' = arr"
    if "arr \<noteq> [] \<and> 0 < ?Q (hd arr)"
  proof -
    from that obtain x xs where arr: "arr = x # xs" and pos: "0 < ?Q x"
      by (cases arr) auto
    then show ?thesis by (simp add: trim_general)
  qed
  have third: "trimLeadingZerosByKey arr ''Quantidade'' = arr"
    if "\<forall>r\<in>set arr. ?Q r = 0"
    using that by (simp add: trim_general)
  from first second third show ?thesis by blast
qed


theorem trimLeadingZerosByKey_Quantidade_witness:
  "trimLeadingZerosByKey
     [serie_row 2008 0, serie_row 2009 0, serie_row 2010 3, serie_row 2011 0] ''Quantidade'' =
     [serie_row 2010 3, serie_row 2011 0] \<and>
   trimLeadingZerosByKey [serie_row 2008 0, serie_row 2009 0] ''Quantidade'' =
     [serie_row 2008 0, serie_row 2009 0] \<and>
   trimLeadingZerosByKey [serie_row 2010 3, serie_row 2011 0] ''Quantidade'' =
     [serie_row 2010 3, serie_row 2011 0]"
  using trimLeadingZerosByKey_Quantidade
          [of "[serie_row 2008 0, serie_row 2009 0, serie_row 2010 3, serie_row 2011 0]"]
        trimLeadingZerosByKey_Quantidade [of "[serie_row 2008 0, serie_row 2009 0]"]
        trimLeadingZerosByKey_Quantidade [of "[serie_row 2010 3, serie_row 2011 0]"]
  by (simp add: num_at_def serie_row_def)

subsection \<open>Percentages of the pie charts\<close>

lemma foldl_plus_sum_list:
  "foldl (\<lambda>s x. s + f x) a xs = a + sum_list (map f xs)"
  for a :: real
  by (induction xs arbitrary: a) (simp_all add: add.assoc)

lemma or_zero_JNum: "or_zero (JNum v) = v"
  by (simp add: or_zero_def)

lemma or_zero_cases:
  "or_zero v = (case v of JNum n \<Rightarrow> n | JNull \<Rightarrow> 0 | JUndefined \<Rightarrow> 0)"
  by (cases v) (simp_all add: or_zero_def)

lemma pct_of_cases:
  "pct_of v t =
     (case v of JNum n \<Rightarrow> Some ((n / t) * 100) | JNull \<Rightarrow> Some 0 | JUndefined \<Rightarrow> None)"
  by (cases v) (simp_all add: pct_of_def)

lemma qtdTotal_sum: "qtdTotal arr = sum_list (map (\<lambda>x. or_zero (Quantidade x)) arr)"
  by (simp add: qtdTotal_def foldl_plus_sum_list)

lemma saldoTotal_sum: "saldoTotal arr = sum_list (map (\<lambda>x. or_zero (Saldo x)) arr)"
  by (simp add: saldoTotal_def foldl_plus_sum_list)

lemma sum_pct_Some:
  "sum_pct (map (\<lambda>x. Some (f x)) xs) = Some (sum_list (map f xs))"
  by (induction xs) simp_all

lemma sum_list_scaled:
  "sum_list (map (\<lambda>x. (f x / t) * 100) xs) = (sum_list (map f xs) / t) * 100"
  for t :: real
  by (induction xs) (simp_all add: add_divide_distrib distrib_right)

lemma sum_pct_pct_of:
  assumes "\<forall>x\<in>set xs. g x \<noteq> JUndefined"
  shows "sum_pct (map (\<lambda>x. pct_of (g x) t) xs) =
         Some ((sum_list (map (\<lambda>x. or_zero (g x)) xs) / t) * 100)"
proof -
  have "pct_of v t = Some ((or_zero v / t) * 100)" if "v \<noteq> JUndefined" for v
    using that by (cases v) (simp_all add: pct_of_def or_zero_def)
  with assms
  have "map (\<lambda>x. pct_of (g x) t) xs = map (\<lambda>x. Some ((or_zero (g x) / t) * 100)) xs"
    by (intro map_cong) auto
  then show ?thesis by (simp only: sum_pct_Some sum_list_scaled)
qed

lemma pieQuantidadePercent_rows:
  "pieQuantidadePercent arr =
     map (\<lambda>x. \<lparr> qtd_row.name = qtd_row.name x, Quantidade = Quantidade x,
                 qtd_pct_row.pct = (if qtdTotal arr \<noteq> 0 then pct_of (Quantidade x) (qtdTotal arr) else Some 0) \<rparr>) arr"
  by (simp add: pieQuantidadePercent_def qtdTotal_def Let_def)

lemma pieSaldoPercent_rows:
  "pieSaldoPercent arr =
     map (\<lambda>x. \<lparr> saldo_row.name = saldo_row.name x, Saldo = Saldo x,
                 saldo_pct_row.pct = (if saldoTotal arr \<noteq> 0 then pct_of (Saldo x) (saldoTotal arr) else Some 0) \<rparr>) arr"
  by (simp add: pieSaldoPercent_def saldoTotal_def Let_def)

text \<open>
  Claim C8. The percentages of the two pie charts are safe against a zero total. When
  the total of \<open>Quantidade\<close> (of \<open>Saldo\<close>) is zero, every \<open>pct\<close> is 0 and no division
  takes place. When the total is not zero (in particular when it is positive), every
  row keeps its properties and gets \<open>pct\<close> equal to its value divided by the total,
  times 100; a row whose value is \<open>null\<close> gets 0 (the division reads \<open>null\<close> as 0) and a
  row without the property gets \<open>NaN\<close>. If no row lacks the property, the percentages
  add up to exactly 100.
\<close>

theorem pie_percent_division_safe:
  "(qtdTotal qs = 0 \<longrightarrow> (\<forall>x\<in>set (pieQuantidadePercent qs). qtd_pct_row.pct x = Some 0)) \<and>
   (qtdTotal qs \<noteq> 0 \<longrightarrow>
      pieQuantidadePercent qs =
        map (\<lambda>x. \<lparr> qtd_row.name = qtd_row.name x, Quantidade = Quantidade x,
                    qtd_pct_row.pct =
                      (case Quantidade x of
                         JNum v \<Rightarrow> Some ((v / qtdTotal qs) * 100)
                       | JNull \<Rightarrow> Some 0
                       | JUndefined \<Rightarrow> None) \<rparr>) qs) \<and>
   (qtdTotal qs \<noteq> 0 \<and> (\<forall>x\<in>set qs. Quantidade x \<noteq> JUndefined) \<longrightarrow>
      sum_pct (map qtd_pct_row.pct (pieQuantidadePercent qs)) = Some 100) \<and>
   (saldoTotal ss = 0 \<longrightarrow> (\<forall>x\<in>set (pieSaldoPercent ss). saldo_pct_row.pct x = Some 0)) \<and>
   (saldoTotal ss \<noteq> 0 \<longrightarrow>
      pieSaldoPercent ss =
        map (\<lambda>x. \<lparr> saldo_row.name = saldo_row.name x, Saldo = Saldo x,
                    saldo_pct_row.pct =
                      (case Saldo x of
                         JNum v \<Rightarrow> Some ((v / saldoTotal ss) * 100)
                       | JNull \<Rightarrow> Some 0
                       | JUndefined \<Rightarrow> None) \<rparr>) ss) \<and>
   (saldoTotal ss \<noteq> 0 \<and> (\<forall>x\<in>set ss. Saldo x \<noteq> JUndefined) \<longrightarrow>
      sum_pct (map saldo_pct_row.pct (pieSaldoPercent ss)) = Some 100)"
proof -
  have q0: "\<forall>x\<in>set (pieQuantidadePercent qs). qtd_pct_row.pct x = Some 0" if "qtdTotal qs = 0"
    using that by (auto simp: pieQuantidadePercent_rows)
  have q1: "pieQuantidadePercent qs =
        map (\<lambda>x. \<lparr> qtd_row.name = qtd_row.name x, Quantidade = Quantidade x,
                    qtd_pct_row.pct =
                      (case Quantidade x of
                         JNum v \<Rightarrow> Some ((v / qtdTotal qs) * 100)
                       | JNull \<Rightarrow> Some 0
                       | JUndefined \<Rightarrow> None) \<rparr>) qs"
    if "qtdTotal qs \<noteq> 0"
    using that by (simp add: pieQuantidadePercent_rows pct_of_cases)
  have q2: "sum_pct (map qtd_pct_row.pct (pieQuantidadePercent qs)) = Some 100"
    if nz: "qtdTotal qs \<noteq> 0" and all: "\<forall>x\<in>set qs. Quantidade x \<noteq> JUndefined"
  proof -
    have "map qtd_pct_row.pct (pieQuantidadePercent qs) = map (\<lambda>x. pct_of (Quantidade x) (qtdTotal qs)) qs"
      using nz by (simp add: pieQuantidadePercent_rows o_def)
    then have "sum_pct (map qtd_pct_row.pct (pieQuantidadePercent qs)) =
        Some ((sum_list (map (\<lambda>x. or_zero (Quantidade x)) qs) / qtdTotal qs) * 100)"
      using sum_pct_pct_of [OF all, of "qtdTotal qs"] by simp
    with nz show ?thesis by (simp add: qtdTotal_sum)
  qed
  have s0: "\<forall>x\<in>set (pieSaldoPercent ss). saldo_pct_row.pct x = Some 0" if "saldoTotal ss = 0"
    using that by (auto simp: pieSaldoPercent_rows)
  have s1: "pieSaldoPercent ss =
        map (\<lambda>x. \<lparr> saldo_row.name = saldo_row.name x, Saldo = Saldo x,
                    saldo_pct_row.pct =
                      (case Saldo x of
                         JNum v \<Rightarrow> Some ((v / saldoTotal ss) * 100)
                       | JNull \<Rightarrow> Some 0
                       | JUndefined \<Rightarrow> None) \<rparr>) ss"
    if "saldoTotal ss \<noteq> 0"
    using that by (simp add: pieSaldoPercent_rows pct_of_cases)
  have s2: "sum_pct (map saldo_pct_row.pct (pieSaldoPercent ss)) = Some 100"
    if nz: "saldoTotal ss \<noteq> 0" and all: "\<forall>x\<in>set ss. Saldo x \<noteq> JUndefined"
  proof -
    have "map saldo_pct_row.pct (pieSaldoPercent ss) = map (\<lambda>x. pct_of (Saldo x) (saldoTotal ss)) ss"
      using nz by (simp add: pieSaldoPercent_rows o_def)
    then have "sum_pct (map saldo_pct_row.pct (pieSaldoPercent ss)) =
        Some ((sum_list (map (\<lambda>x. or_zero (Saldo x)) ss) / saldoTotal ss) * 100)"
      using sum_pct_pct_of [OF all, of "saldoTotal ss"] by simp
    with nz show ?thesis by (simp add: saldoTotal_sum)
  qed
  from q0 q1 q2 s0 s1 s2 show ?thesis by blast
qed

theorem pie_percent_division_safe_witness:
  "map qtd_pct_row.pct
     (pieQuantidadePercent
        [\<lparr> qtd_row.name = ''IPTU'', Quantidade = JNum 30 \<rparr>,
         \<lparr> qtd_row.name = ''ISS'', Quantidade = JNum 50 \<rparr>]) = [Some (75 / 2), Some (125 / 2)] \<and>
   sum_pct (map qtd_pct_row.pct
     (pieQuantidadePercent
        [\<lparr> qtd_row.name = ''IPTU'', Quantidade = JNum 30 \<rparr>,
         \<lparr> qtd_row.name = ''ISS'', Quantidade = JNum 50 \<rparr>])) = Some 100 \<and>
   map saldo_pct_row.pct
     (pieSaldoPercent
        [\<lparr> saldo_row.name = ''IPTU'', Saldo = JNum 0 \<rparr>,
         \<lparr> saldo_row.name = ''ISS'', Saldo = JUndefined \<rparr>]) = [Some 0, Some 0] \<and>
   map qtd_pct_row.pct
     (pieQuantidadePercent
        [\<lparr> qtd_row.name = ''IPTU'', Quantidade = JNum 0 \<rparr>]) = [Some 0] \<and>
   map saldo_pct_row.pct
     (pieSaldoPercent
        [\<lparr> saldo_row.name = ''IPTU'', Saldo = JNum 100 \<rparr>,
         \<lparr> saldo_row.name = ''Taxas'', Saldo = JNull \<rparr>,
         \<lparr> saldo_row.name = ''ISS'', Saldo = JNum 60 \<rparr>]) = [Some (125 / 2), Some 0, Some (75 / 2)] \<and>
   sum_pct (map saldo_pct_row.pct
     (pieSaldoPercent
        [\<lparr> saldo_row.name = ''IPTU'', Saldo = JNum 100 \<rparr>,
         \<lparr> saldo_row.name = ''Taxas'', Saldo = JNull \<rparr>,
         \<lparr> saldo_row.name = ''ISS'', Saldo = JNum 60 \<rparr>])) = Some 100"
  using pie_percent_division_safe
          [of "[\<lparr> qtd_row.name = ''IPTU'', Quantidade = JNum 30 \<rparr>,
                \<lparr> qtd_row.name = ''ISS'', Quantidade = JNum 50 \<rparr>]"
              "[\<lparr> saldo_row.name = ''IPTU'', Saldo = JNum 0 \<rparr>,
                \<lparr> saldo_row.name = ''ISS'', Saldo = JUndefined \<rparr>]"]
        pie_percent_division_safe
          [of "[\<lparr> qtd_row.name = ''IPTU'', Quantidade = JNum 0 \<rparr>]"
              "[\<lparr> saldo_row.name = ''IPTU'', Saldo = JNum 100 \<rparr>,
                \<lparr> saldo_row.name = ''Taxas'', Saldo = JNull \<rparr>,
                \<lparr> saldo_row.name = ''ISS'', Saldo = JNum 60 \<rparr>]"]
  by (simp add: qtdTotal_def saldoTotal_def or_zero_def pct_of_def
        pieQuantidadePercent_def pieSaldoPercent_def)

text \<open>A row without the property, next to a non-zero total, has \<open>NaN\<close> as its
  percentage, and so has the sum.\<close>

lemma pie_percent_undefined_row:
  "map saldo_pct_row.pct
     (pieSaldoPercent
        [\<lparr> saldo_row.name = ''IPTU'', Saldo = JNum 100 \<rparr>,
         \<lparr> saldo_row.name = ''ISS'', Saldo = JUndefined \<rparr>]) = [Some 100, None] \<and>
   sum_pct (map saldo_pct_row.pct
     (pieSaldoPercent
        [\<lparr> saldo_row.name = ''IPTU'', Saldo = JNum 100 \<rparr>,
         \<lparr> saldo_row.name = ''ISS'', Saldo = JUndefined \<rparr>])) = None"
  by (simp add: pieSaldoPercent_def or_zero_def pct_of_def)

subsection \<open>The KPI card and its fallback\<close>

text \<open>
  Claim C10. When the request to \<open>/kpis/volume_em_cobranca\<close> rejects, \<open>fetchAll\<close>
  swallows the error: the state is the one the seven setters left, \<open>qtdEmCobrancaTotal\<close>
  untouched. Starting from the initial state the card then shows the fallback, the sum
  of \<open>Quantidade\<close> over all rows of \<open>quantidade_cdas\<close> (a missing or \<open>null\<close>
  \<open>Quantidade\<close> counting as 0). When the request resolves with a total, the card shows
  that total.
\<close>

theorem kpi_fallback_on_failure:
  "qtdEmCobrancaTotal (fetchAll (Resolved d) Rejected s) = qtdEmCobrancaTotal s \<and>
   quantidadeCdas (fetchAll (Resolved d) Rejected s) = d_qc d \<and>
   kpi_volume (fetchAll (Resolved d) Rejected Resumos_init) =
     sum_list (map (\<lambda>x. case Quantidade x of JNum v \<Rightarrow> v | JNull \<Rightarrow> 0 | JUndefined \<Rightarrow> 0)
                 (d_qc d)) \<and>
   kpi_volume (fetchAll (Resolved d) (Resolved (Some t)) s) = t"
  by (simp add: fetchAll_def kpi_volume_def Resumos_init_def qtdTotal_sum or_zero_cases)

theorem kpi_fallback_on_failure_witness:
  "kpi_volume (fetchAll
      (Resolved \<lparr> d_i = [], d_ic = [], d_iq = [], d_ma = [] :: unit list,
                  d_qc = [\<lparr> qtd_row.name = ''IPTU'', Quantidade = JNum 2 \<rparr>,
                          \<lparr> qtd_row.name = ''ISS'', Quantidade = JNum 1 \<rparr>],
                  d_sc = [], d_dc = [] :: unit list \<rparr>)
      Rejected Resumos_init) = 3 \<and>
   kpi_volume (fetchAll
      (Resolved \<lparr> d_i = [], d_ic = [], d_iq = [], d_ma = [] :: unit list,
                  d_qc = [\<lparr> qtd_row.name = ''IPTU'', Quantidade = JNum 2 \<rparr>,
                          \<lparr> qtd_row.name = ''ISS'', Quantidade = JNum 1 \<rparr>],
                  d_sc = [], d_dc = [] :: unit list \<rparr>)
      (Resolved (Some 1)) Resumos_init) = 1"
  using kpi_fallback_on_failure
     [of "\<lparr> d_i = [], d_ic = [], d_iq = [], d_ma = [] :: unit list,
                  d_qc = [\<lparr> qtd_row.name = ''IPTU'', Quantidade = JNum 2 \<rparr>,
                          \<lparr> qtd_row.name = ''ISS'', Quantidade = JNum 1 \<rparr>],
                  d_sc = [], d_dc = [] :: unit list \<rparr>" Resumos_init 1]
  by simp

text \<open>
  The fallback is the count of all records, not of those in collection: the rows of
  \<open>quantidade_cdas\<close>, as the specification describes the table, add up to the number of
  records.
\<close>

lemma sum_list_count_remdups:
  "sum_list (map (\<lambda>n. length (filter (\<lambda>x. f x = n) xs)) (remdups (map f xs))) = length xs"
proof -
  have "sum_list (map (\<lambda>n. length (filter (\<lambda>x. f x = n) xs)) (remdups (map f xs))) =
        (\<Sum>n\<in>set (map f xs). length (filter (\<lambda>x. f x = n) xs))"
    by (simp add: sum_list_distinct_conv_sum_set)
  also have "\<dots> = (\<Sum>n\<in>f ` set xs. card {i. i < length xs \<and> f (xs ! i) = n})"
    by (simp add: length_filter_conv_card)
  also have "\<dots> = card (\<Union>n\<in>f ` set xs. {i. i < length xs \<and> f (xs ! i) = n})"
    by (subst card_UN_disjoint) auto
  also have "(\<Union>n\<in>f ` set xs. {i. i < length xs \<and> f (xs ! i) = n}) = {..<length xs}"
    using nth_mem by fastforce
  finally show ?thesis by simp
qed

lemma real_sum_list: "sum_list (map (\<lambda>n. real (g n)) ys) = real (sum_list (map g ys))"
  by (induction ys) simp_all

lemma qtdTotal_quantidade_cdas: "qtdTotal (quantidade_cdas rs) = real (length rs)"
proof -
  have "qtdTotal (quantidade_cdas rs) =
     sum_list (map (\<lambda>n. real (length (filter (\<lambda>r. cda_record.natureza r = n) rs)))
        (remdups (map cda_record.natureza rs)))"
    by (simp add: qtdTotal_sum quantidade_cdas_def o_def or_zero_JNum)
  also have "\<dots> = real (sum_list (map (\<lambda>n. length (filter (\<lambda>r. cda_record.natureza r = n) rs))
        (remdups (map cda_record.natureza rs))))"
    by (rule real_sum_list)
  finally show ?thesis by (simp add: sum_list_count_remdups)
qed

subsection \<open>The column of the situacao\<close>

lemma Em_cobranca_src_distinct:
  "Em_cobranca_src \<noteq> ''Cancelada''" "Em_cobranca_src \<noteq> ''Quitada''"
  "Em_cobranca_src \<noteq> Em_cobranca"
  by (simp_all add: Em_cobranca_src_def Em_cobranca_def)

text \<open>
  The codes -1 and 1 are rendered as the specification's labels, and the mapping from
  labels to codes takes the cell back to the code.
\<close>

lemma situacao_cell_cancelada_quitada:
  "(agrupamento_situacao row = - 1 \<longrightarrow>
      situacao_cell row = ''Cancelada'' \<and> label_code (situacao_cell row) = Some (- 1)) \<and>
   (agrupamento_situacao row = 1 \<longrightarrow>
      situacao_cell row = ''Quitada'' \<and> label_code (situacao_cell row) = Some 1)"
  by (simp add: situacao_cell_def label_code_def Em_cobranca_def)

text \<open>
  Claim C4. The claim says that code 0 is rendered as the specification's label
  'Em cobranca' (with the c-cedilla), the inverse of the mapping from labels to codes.
  On the record of the example data that is in collection, the cell holds the literal
  of the module instead: it is not the specification's label, and the mapping from
  labels to codes has no code for it. The same literal is the second option of the
  situacao select box.
\<close>

theorem situacao_cell_em_cobranca:
  "agrupamento_situacao rec_em_cobranca = 0 \<and>
   situacao_cell rec_em_cobranca = Em_cobranca_src \<and>
   situacao_cell rec_em_cobranca \<noteq> Em_cobranca \<and>
   label_code (situacao_cell rec_em_cobranca) = None \<and>
   label_code Em_cobranca = Some 0 \<and>
   situacoes ! 1 = situacao_cell rec_em_cobranca"
  by (simp add: situacao_cell_def rec_em_cobranca_def label_code_def situacoes_def
        Em_cobranca_src_def Em_cobranca_def)

subsection \<open>The initial request\<close>

text \<open>
  Claim C6. The initial state of \<open>BuscaCDA\<close> holds \<open>sortBy = 'saldo'\<close>,
  \<open>sortDir = 'desc'\<close>, \<open>page = 1\<close>, \<open>pageSize = 20\<close>, and the parameters that \<open>buscar\<close>
  builds from it are the defaults of the specification, with no filter present.
\<close>

theorem initial_request_defaults:
  "sortBy BuscaCDA_init = Sort_saldo \<and> sortDir BuscaCDA_init = Desc \<and>
   page BuscaCDA_init = 1 \<and> pageSize BuscaCDA_init = 20 \<and>
   buscar_params BuscaCDA_init =
     \<lparr> p_q = None, p_natureza = None, p_situacao = None,
       p_min_ano = None, p_max_ano = None, p_min_saldo = None, p_max_saldo = None,
       p_min_score = None, p_max_score = None,
       p_sort_by = f_sort_by default_request, p_sort_dir = f_sort_dir default_request,
       p_page = f_page default_request, p_page_size = f_page_size default_request \<rparr> \<and>
   f_sort_by default_request = Sort_saldo \<and> f_sort_dir default_request = Desc \<and>
   f_page default_request = 1 \<and> f_page_size default_request = 20"
  by (simp add: BuscaCDA_init_def buscar_params_def default_request_def
        empty_undefined_def blank_undefined_def)

subsection \<open>Empty filters are omitted\<close>

text \<open>
  Claim C7. In the request that \<open>buscar\<close> builds, a filter dimension is \<open>undefined\<close>
  exactly when it is empty in the form: the empty string \<open>q\<close>, an empty selection of
  \<open>natureza\<close> or \<open>situacao\<close>, a blank numeric bound. A dimension that is not empty is sent
  with its value.
\<close>

theorem buscar_omits_empty:
  "(p_q (buscar_params s) = None \<longleftrightarrow> q s = []) \<and>
   (p_natureza (buscar_params s) = None \<longleftrightarrow> natureza s = []) \<and>
   (p_situacao (buscar_params s) = None \<longleftrightarrow> situacao s = []) \<and>
   (p_min_ano (buscar_params s) = None \<longleftrightarrow> minAno s = Blank) \<and>
   (p_max_ano (buscar_params s) = None \<longleftrightarrow> maxAno s = Blank) \<and>
   (p_min_saldo (buscar_params s) = None \<longleftrightarrow> minSaldo s = Blank) \<and>
   (p_max_saldo (buscar_params s) = None \<longleftrightarrow> maxSaldo s = Blank) \<and>
   (p_min_score (buscar_params s) = None \<longleftrightarrow> minScore s = Blank) \<and>
   (p_max_score (buscar_params s) = None \<longleftrightarrow> maxScore s = Blank) \<and>
   (q s \<noteq> [] \<longrightarrow> p_q (buscar_params s) = Some (q s)) \<and>
   (natureza s \<noteq> [] \<longrightarrow> p_natureza (buscar_params s) = Some (natureza s)) \<and>
   (situacao s \<noteq> [] \<longrightarrow> p_situacao (buscar_params s) = Some (situacao s))"
  by (simp add: buscar_params_def empty_undefined_def blank_undefined_def
        split: num_input.split)

theorem buscar_omits_empty_witness:
  "p_q (buscar_params (BuscaCDA_init\<lparr> natureza := [''ISS''], minAno := Number 2010 \<rparr>)) = None \<and>
   p_natureza (buscar_params (BuscaCDA_init\<lparr> natureza := [''ISS''], minAno := Number 2010 \<rparr>)) =
     Some [''ISS''] \<and>
   p_situacao (buscar_params (BuscaCDA_init\<lparr> natureza := [''ISS''], minAno := Number 2010 \<rparr>)) = None \<and>
   p_min_ano (buscar_params (BuscaCDA_init\<lparr> natureza := [''ISS''], minAno := Number 2010 \<rparr>)) =
     Some 2010 \<and>
   p_max_ano (buscar_params (BuscaCDA_init\<lparr> natureza := [''ISS''], minAno := Number 2010 \<rparr>)) = None"
  using buscar_omits_empty [of "BuscaCDA_init\<lparr> natureza := [''ISS''], minAno := Number 2010 \<rparr>"]
  by (simp add: BuscaCDA_init_def buscar_params_def blank_undefined_def)

text \<open>On the side of the query core, as the specification describes it, a request with
  no filter present matches every record.\<close>

lemma matches_default_request: "matches default_request r"
  by (simp add: matches_def default_request_def in_range_def)

subsection \<open>The pagination controls\<close>

lemma totalPages_ge_1: "1 \<le> totalPages s"
  by (simp add: totalPages_def)

lemma totalPages_page_irrelevant [simp]: "totalPages (s\<lparr> page := p \<rparr>) = totalPages s"
  by (simp add: totalPages_def)

text \<open>
  Claim C9. The pagination controls keep \<open>1 \<le> page \<le> totalPages\<close>, where
  \<open>totalPages = max(1, ceil(total / pageSize))\<close> is at least 1, and is 1 when \<open>total\<close> is
  0. The invariant holds in the initial state; the handler of "Anterior" never gives a
  page below 1, the handler of "Proxima" never one above \<open>totalPages\<close>, a change of the
  page size and the button "Buscar" set the page to 1; and every use of a control in a
  state that satisfies the invariant leads to a state that satisfies it.
\<close>

theorem pagination_invariant:
  "page_inv BuscaCDA_init \<and>
   1 \<le> totalPages s \<and>
   (total s = 0 \<longrightarrow> totalPages s = 1) \<and>
   1 \<le> page (anterior_click s) \<and>
   page (proxima_click s) \<le> totalPages (proxima_click s) \<and>
   page (pageSize_change v s) = 1 \<and>
   page (buscar_click s) = 1 \<and>
   (page_inv s \<and> control_step c s = Some s' \<longrightarrow> page_inv s')"
proof -
  have init: "page_inv BuscaCDA_init"
    by (simp add: page_inv_def BuscaCDA_init_def totalPages_def pageSize_options_def)
  have zero: "totalPages s = 1" if "total s = 0"
    using that by (simp add: totalPages_def)
  have ant: "1 \<le> page (anterior_click s)"
    by (simp add: anterior_click_def)
  have prox: "page (proxima_click s) \<le> totalPages (proxima_click s)"
    by (simp add: proxima_click_def)
  have size: "page (pageSize_change v s) = 1"
    by (simp add: pageSize_change_def)
  have busc: "page (buscar_click s) = 1"
    by (simp add: buscar_click_def)
  have step: "page_inv s'" if inv: "page_inv s" and st: "control_step c s = Some s'"
  proof (cases c)
    case Anterior
    with st have s': "s' = anterior_click s" by (simp split: if_splits)
    from inv show ?thesis
      unfolding s' by (auto simp: page_inv_def anterior_click_def)
  next
    case Proxima
    with st have s': "s' = proxima_click s" by (simp split: if_splits)
    from inv totalPages_ge_1 [of s] show ?thesis
      unfolding s' by (auto simp: page_inv_def proxima_click_def)
  next
    case (PageSize w)
    with st have s': "s' = pageSize_change w s" and opt: "w \<in> set pageSize_options"
      by (simp_all split: if_splits)
    from opt totalPages_ge_1 [of "pageSize_change w s"] show ?thesis
      unfolding s' by (simp add: page_inv_def pageSize_change_def)
  next
    case Buscar
    with st have s': "s' = buscar_click s" by simp
    from inv totalPages_ge_1 [of s] show ?thesis
      unfolding s' by (simp add: page_inv_def buscar_click_def)
  qed
  from init totalPages_ge_1 zero ant prox size busc step show ?thesis by blast
qed

theorem pagination_invariant_witness:
  "control_step Proxima (BuscaCDA_init\<lparr> page := 2, total := 45 \<rparr>) =
     Some (BuscaCDA_init\<lparr> page := 3, total := 45 \<rparr>) \<and>
   totalPages (BuscaCDA_init\<lparr> page := 2, total := 45 \<rparr>) = 3 \<and>
   page_inv (BuscaCDA_init\<lparr> page := 3, total := 45 \<rparr>)"
proof -
  let ?s = "BuscaCDA_init\<lparr> page := 2, total := 45 \<rparr>"
  let ?s' = "BuscaCDA_init\<lparr> page := 3, total := 45 \<rparr>"
  have tp: "totalPages ?s = 3"
    by (simp add: totalPages_def BuscaCDA_init_def)
  have inv: "page_inv ?s"
    by (simp add: page_inv_def tp) (simp add: BuscaCDA_init_def pageSize_options_def)
  have st: "control_step Proxima ?s = Some ?s'"
    by (simp add: proxima_disabled_def proxima_click_def tp)
  from pagination_invariant [of ?s 20 Proxima ?s'] inv st have "page_inv ?s'" by blast
  with st tp show ?thesis by simp
qed

text \<open>
  The controls are the subject of the invariant. The response of a request is not one of
  them: it stores a new \<open>total\<close> and leaves \<open>page\<close> alone, so a response with a
  smaller total (the filters of the form were edited since the last request) can leave
  \<open>page\<close> above \<open>totalPages\<close> until a control is used again.
\<close>

lemma response_can_leave_page_behind:
  "page_inv (BuscaCDA_init\<lparr> page := 2, total := 40 \<rparr>) \<and>
   \<not> page_inv (buscar_response 3 (BuscaCDA_init\<lparr> page := 2, total := 40 \<rparr>))"
  by (simp add: page_inv_def buscar_response_def totalPages_def BuscaCDA_init_def
        pageSize_options_def)

subsection \<open>The Paginator\<close>

lemma paginate_valid:
  assumes "1 \<le> pg" "1 \<le> pg_size"
  shows "paginate xs pg pg_size =
         (take (nat pg_size) (drop (nat ((pg - 1) * pg_size)) xs), length xs)"
proof -
  have nn: "0 \<le> (pg - 1) * pg_size" using assms by simp
  have "pg * pg_size - (pg - 1) * pg_size = pg_size" by (simp add: algebra_simps)
  moreover have "(pg - 1) * pg_size \<le> pg * pg_size" using assms by (simp add: mult_right_mono)
  ultimately have "nat (pg * pg_size) - nat ((pg - 1) * pg_size) = nat pg_size"
    using nn nat_diff_distrib [of "(pg - 1) * pg_size" "pg * pg_size"] by simp
  with assms show ?thesis by (simp add: paginate_def Let_def max_def)
qed

text \<open>
  Claim C2. For every sequence, \<open>page \<ge> 1\<close> and \<open>page_size \<ge> 1\<close>, the Paginator returns
  \<open>(items, total)\<close> with \<open>total\<close> the length of the whole sequence, whatever the page, and
  \<open>items\<close> the slice of the page; a page past the last one gives no items and the same
  total, not an error; \<open>page = 5\<close> with \<open>page_size = 20\<close> on 12 items gives \<open>([], 12)\<close>.
\<close>

theorem paginate_total:
  assumes "1 \<le> pg" "1 \<le> pg_size"
  shows "snd (paginate xs pg pg_size) = length xs \<and>
         fst (paginate xs pg pg_size) = take (nat pg_size) (drop (nat ((pg - 1) * pg_size)) xs) \<and>
         (int (length xs) \<le> (pg - 1) * pg_size \<longrightarrow>
            paginate xs pg pg_size = ([], length xs)) \<and>
         (length xs = 12 \<longrightarrow> paginate xs 5 20 = ([], 12))"
proof -
  have past: "paginate xs pg pg_size = ([], length xs)"
    if "int (length xs) \<le> (pg - 1) * pg_size"
  proof -
    from that have "length xs \<le> nat ((pg - 1) * pg_size)" by linarith
    then show ?thesis by (simp add: paginate_valid [OF assms])
  qed
  have scen: "paginate xs 5 20 = ([], 12)" if "length xs = 12"
    using that by (simp add: paginate_def)
  from past scen show ?thesis by (simp add: paginate_valid [OF assms])
qed

theorem paginate_total_witness:
  "paginate [1, 2, 3, 4, 5, 6, 7, 8, 9, 10, 11, 12 :: nat] 5 20 = ([], 12) \<and>
   paginate [1, 2, 3, 4, 5, 6, 7, 8, 9, 10, 11, 12 :: nat] 2 5 = ([6, 7, 8, 9, 10], 12)"
  using paginate_total [of 5 20 "[1, 2, 3, 4, 5, 6, 7, 8, 9, 10, 11, 12 :: nat]"]
        paginate_total [of 2 5 "[1, 2, 3, 4, 5, 6, 7, 8, 9, 10, 11, 12 :: nat]"]
  by (simp add: prod_eq_iff)

subsection \<open>The KPI\<close>

lemma volume_em_cobranca_codes:
  "volume_em_cobranca rs = length (filter (\<lambda>c. c = 0) (map agrupamento_situacao rs))"
  by (induction rs) simp_all

text \<open>
  Claim C3. \<open>volume_em_cobranca\<close> is the number of records whose
  \<open>agrupamento_situacao\<close> is 0; nothing but the codes of the records influences it (two
  data sets with the same sequence of codes give the same value); on three records with
  the codes -1, 0, 1 it is 1.
\<close>

theorem volume_em_cobranca_counts:
  "volume_em_cobranca rs = length (filter (\<lambda>r. agrupamento_situacao r = 0) rs) \<and>
   (map agrupamento_situacao rs' = map agrupamento_situacao rs \<longrightarrow>
      volume_em_cobranca rs' = volume_em_cobranca rs) \<and>
   (agrupamento_situacao a = - 1 \<and> agrupamento_situacao b = 0 \<and> agrupamento_situacao c = 1 \<longrightarrow>
      volume_em_cobranca [a, b, c] = 1)"
proof -
  have "volume_em_cobranca rs = length (filter (\<lambda>r. agrupamento_situacao r = 0) rs)"
    by (induction rs) simp_all
  moreover have "volume_em_cobranca rs' = volume_em_cobranca rs"
    if "map agrupamento_situacao rs' = map agrupamento_situacao rs"
    using that by (simp add: volume_em_cobranca_codes)
  ultimately show ?thesis by simp
qed

theorem volume_em_cobranca_counts_witness:
  "volume_em_cobranca [rec_cancelada, rec_em_cobranca, rec_quitada] = 1"
  using volume_em_cobranca_counts [of "[rec_cancelada, rec_em_cobranca, rec_quitada]"]
  by (simp add: rec_cancelada_def rec_em_cobranca_def rec_quitada_def)

subsection \<open>The two encodings of the situacao filter\<close>

lemma situacao_codes_append:
  "situacao_codes (ts @ us) = situacao_codes ts \<union> situacao_codes us"
  by (simp add: situacao_codes_def List.map_filter_def)

lemma situacao_codes_Em_cobranca: "situacao_codes [Label Em_cobranca] = {0}"
  by (simp add: situacao_codes_def List.map_filter_def label_code_def Em_cobranca_def)

lemma situacao_codes_zero: "situacao_codes [Code 0] = {0}"
  by (simp add: situacao_codes_def List.map_filter_def)

lemma matches_situacao_cong:
  assumes "situacao_codes ts = situacao_codes us" "ts \<noteq> []" "us \<noteq> []"
  shows "matches (req\<lparr> f_situacao := Some ts \<rparr>) r = matches (req\<lparr> f_situacao := Some us \<rparr>) r"
  using assms by (simp add: matches_def)

text \<open>
  Claim C5. On every data set and with the rest of the request fixed, the search with
  \<open>situacao = {"Em cobranca"}\<close> (the label) and the search with \<open>situacao = {0}\<close> (the
  code) return the same result, because both resolve to the internal code set \<open>{0}\<close>;
  the values of a request that mixes the encodings are merged into one set.
\<close>

theorem situacao_encodings_agree:
  "search (req\<lparr> f_situacao := Some [Label Em_cobranca] \<rparr>) rs =
     search (req\<lparr> f_situacao := Some [Code 0] \<rparr>) rs \<and>
   situacao_codes [Label Em_cobranca] = situacao_codes [Code 0] \<and>
   situacao_codes [Code 0] = {0} \<and>
   situacao_codes (ts @ us) = situacao_codes ts \<union> situacao_codes us \<and>
   situacao_codes [Label Em_cobranca, Code 0] = {0}"
proof -
  have codes: "situacao_codes [Label Em_cobranca] = situacao_codes [Code 0]"
    by (simp add: situacao_codes_Em_cobranca situacao_codes_zero)
  have "matches (req\<lparr> f_situacao := Some [Label Em_cobranca] \<rparr>) =
        matches (req\<lparr> f_situacao := Some [Code 0] \<rparr>)"
    by (rule ext) (rule matches_situacao_cong [OF codes], simp_all)
  then have "search (req\<lparr> f_situacao := Some [Label Em_cobranca] \<rparr>) rs =
     search (req\<lparr> f_situacao := Some [Code 0] \<rparr>) rs"
    by (simp add: search_def)
  moreover have "situacao_codes [Label Em_cobranca, Code 0] = {0}"
    using situacao_codes_append [of "[Label Em_cobranca]" "[Code 0]"]
    by (simp add: situacao_codes_Em_cobranca situacao_codes_zero)
  ultimately show ?thesis
    using codes by (simp add: situacao_codes_zero situacao_codes_append)
qed

theorem situacao_encodings_agree_witness:
  "search (default_request\<lparr> f_situacao := Some [Label Em_cobranca] \<rparr>)
     [rec_cancelada, rec_em_cobranca, rec_quitada, rec_em_cobranca2] =
     ([rec_em_cobranca2, rec_em_cobranca], 2) \<and>
   search (default_request\<lparr> f_situacao := Some [Code 0] \<rparr>)
     [rec_cancelada, rec_em_cobranca, rec_quitada, rec_em_cobranca2] =
     ([rec_em_cobranca2, rec_em_cobranca], 2)"
proof -
  have "search (default_request\<lparr> f_situacao := Some [Code 0] \<rparr>)
     [rec_cancelada, rec_em_cobranca, rec_quitada, rec_em_cobranca2] =
     ([rec_em_cobranca2, rec_em_cobranca], 2)"
    by (simp add: search_def default_request_def matches_def in_range_def sorter_def
          precedes_def sort_value_def paginate_def situacao_codes_zero
          rec_cancelada_def rec_em_cobranca_def rec_quitada_def rec_em_cobranca2_def)
  with situacao_encodings_agree
         [of default_request "[rec_cancelada, rec_em_cobranca, rec_quitada, rec_em_cobranca2]"
             "[]" "[]"]
  show ?thesis by simp
qed

end
